theory Spec2Isabelle
  imports Main "HOL-Library.Multiset"
begin

section \<open>Suggestion storage model (core/storage/suggestion/gae_models.py)\<close>

subsection \<open>Module constants\<close>

definition TARGET_TYPE_EXPLORATION :: string where
  "TARGET_TYPE_EXPLORATION = ''exploration''"

definition TARGET_TYPE_QUESTION :: string where
  "TARGET_TYPE_QUESTION = ''question''"

definition TARGET_TYPE_SKILL :: string where
  "TARGET_TYPE_SKILL = ''skill''"

definition TARGET_TYPE_TOPIC :: string where
  "TARGET_TYPE_TOPIC = ''topic''"

definition TARGET_TYPE_CHOICES :: "string list" where
  "TARGET_TYPE_CHOICES =
     [TARGET_TYPE_EXPLORATION, TARGET_TYPE_QUESTION, TARGET_TYPE_SKILL, TARGET_TYPE_TOPIC]"

definition STATUS_ACCEPTED :: string where
  "STATUS_ACCEPTED = ''accepted''"

definition STATUS_IN_REVIEW :: string where
  "STATUS_IN_REVIEW = ''review''"

definition STATUS_REJECTED :: string where
  "STATUS_REJECTED = ''rejected''"

definition STATUS_CHOICES :: "string list" where
  "STATUS_CHOICES = [STATUS_ACCEPTED, STATUS_IN_REVIEW, STATUS_REJECTED]"

definition SUGGESTION_TYPE_EDIT_STATE_CONTENT :: string where
  "SUGGESTION_TYPE_EDIT_STATE_CONTENT = ''edit_exploration_state_content''"

definition SUGGESTION_TYPE_TRANSLATE_CONTENT :: string where
  "SUGGESTION_TYPE_TRANSLATE_CONTENT = ''translate_content''"

definition SUGGESTION_TYPE_ADD_QUESTION :: string where
  "SUGGESTION_TYPE_ADD_QUESTION = ''add_question''"

definition SUGGESTION_TYPE_CHOICES :: "string list" where
  "SUGGESTION_TYPE_CHOICES =
     [SUGGESTION_TYPE_EDIT_STATE_CONTENT, SUGGESTION_TYPE_TRANSLATE_CONTENT,
      SUGGESTION_TYPE_ADD_QUESTION]"






definition ALLOWED_QUERY_FIELDS :: "string list" where
  "ALLOWED_QUERY_FIELDS =
     [''suggestion_type'', ''target_type'', ''target_id'', ''status'', ''author_id'',
      ''final_reviewer_id'', ''score_category'']"

definition THRESHOLD_DAYS_BEFORE_ACCEPT :: int where
  "THRESHOLD_DAYS_BEFORE_ACCEPT = 7"

definition THRESHOLD_TIME_BEFORE_ACCEPT_IN_MSECS :: int where
  "THRESHOLD_TIME_BEFORE_ACCEPT_IN_MSECS = THRESHOLD_DAYS_BEFORE_ACCEPT * 24 * 60 * 60 * 1000"

subsection \<open>The suggestion entity\<close>

text \<open>
  The payload of \<open>change_cmd\<close> is a JSON document that the model stores and returns
  without looking inside. The same type carries the values of the dictionaries that
  \<open>export_data\<close> builds (strings, one integer and the payload).
\<close>

datatype json =
    JNull
  | JBool bool
  | JInt int
  | JString string
  | JList "json list"
  | JDict "(string \<times> json) list"

text \<open>
  One entity of kind \<open>GeneralSuggestionModel\<close>. The key of the entity is \<open>model_id\<close>
  (the source's \<open>id\<close>). The string properties keep the source's string values; the
  properties declared with \<open>required=True\<close> are plain strings, \<open>final_reviewer_id\<close>
  (not required) may be unset. \<open>last_updated\<close> is the time of the last write, in
  microseconds (the resolution of \<open>datetime\<close>).
\<close>

record suggestion =
  model_id :: string
  suggestion_type :: string
  target_type :: string
  target_id :: string
  target_version_at_submission :: int
  status :: string
  author_id :: string
  final_reviewer_id :: "string option"
  change_cmd :: json
  score_category :: string
  last_updated :: int

text \<open>
  The exceptions the model raises, by kind: the three \<open>raise Exception(...)\<close> of the
  source with the value their message embeds, and the rejection by the store of a
  value outside the \<open>choices\<close> of a property (property name and value).
\<close>

datatype error =
    DuplicateId string
  | InvalidField string
  | InvalidChoice string string
  | EmptyInput

text \<open>
  The datastore holds the entities of the kind in a fixed order. Every operation takes the
  datastore and returns its outcome together with the datastore it leaves behind.
\<close>

type_synonym store = "suggestion list"

type_synonym 'a datastore_op = "store \<Rightarrow> (error + 'a) \<times> store"

subsection \<open>The store adapter\<close>

text \<open>
  The base model class and the datastore library that the model builds on are not among
  the sources. Section 6 of the specification gives their contract: \<open>put(record)\<close>,
  \<open>get_by_id(id)\<close> returning the record or nothing, \<open>query()\<close> building a query that
  supports \<open>filter(field == value)\<close>, \<open>IN(set)\<close> and not-equal, \<open>fetch(limit)\<close>, and an
  unbounded \<open>get_all()\<close> that is filtered the same way. A query is the predicate its
  filters have accumulated.
\<close>

type_synonym ndb_query = "suggestion \<Rightarrow> bool"

text \<open>
  Modelled from the spec: \<open>get_by_id(id)\<close> of the store adapter, which is missing from
  the sources, returns the record stored under the id, or nothing.
\<close>

definition get_by_id :: "string \<Rightarrow> store \<Rightarrow> suggestion option" where
  "get_by_id instance_id s = find (\<lambda>r. model_id r = instance_id) s"

text \<open>
  Modelled from the spec: \<open>put(record)\<close> of the store adapter, which is missing from the
  sources, writes the entity under its key, replacing an entity that has the key already,
  and stamps \<open>last_updated\<close> with the time of the write (Section 3: maintained by the
  store on every write).
\<close>

fun put_entity :: "suggestion \<Rightarrow> store \<Rightarrow> store" where
  "put_entity e [] = [e]"
| "put_entity e (r # rs) =
     (if model_id r = model_id e then e # rs else r # put_entity e rs)"

definition put :: "suggestion \<Rightarrow> int \<Rightarrow> store \<Rightarrow> store" where
  "put e now s = put_entity (e\<lparr>last_updated := now\<rparr>) s"

text \<open>
  Modelled from the spec: \<open>query()\<close>, \<open>get_all()\<close> and \<open>filter\<close> of the store adapter,
  which are missing from the sources. \<open>query()\<close> is the query that every entity of the
  kind matches, \<open>get_all()\<close> the unbounded query over all of them, and \<open>filter\<close> adds a
  condition to a query.
\<close>

definition query :: ndb_query where
  "query = (\<lambda>r. True)"

definition get_all :: ndb_query where
  "get_all = query"

definition filter_query :: "ndb_query \<Rightarrow> ndb_query \<Rightarrow> ndb_query" where
  "filter_query q node = (\<lambda>r. q r \<and> node r)"

text \<open>
  Modelled from the spec: \<open>fetch\<close> of the store adapter, which is missing from the
  sources. \<open>fetch(limit)\<close> returns the matching entities, at most \<open>limit\<close> of them;
  \<open>fetch()\<close> returns them all.
\<close>

definition fetch :: "nat option \<Rightarrow> ndb_query \<Rightarrow> store \<Rightarrow> suggestion list" where
  "fetch limit q s =
     (case limit of None \<Rightarrow> List.filter q s | Some n \<Rightarrow> take n (List.filter q s))"

text \<open>
  The properties of the entity that are declared with \<open>choices\<close> (lines 115 to 128 of the
  source).
\<close>

definition choices :: "string \<Rightarrow> string list option" where
  "choices field =
     (if field = ''suggestion_type'' then Some SUGGESTION_TYPE_CHOICES
      else if field = ''target_type'' then Some TARGET_TYPE_CHOICES
      else if field = ''status'' then Some STATUS_CHOICES
      else None)"

text \<open>
  Modelled from the spec: the schema validation of the store, which is missing from the
  sources. The store validates a value against the \<open>choices\<close> of its property, when an
  entity is built and when a value is compared with the property in a filter (Section 7,
  InvalidChoice; the test \<open>test_get_suggestions_by_type\<close> expects the rejection from
  \<open>query_suggestions\<close>).
\<close>

definition do_validate :: "string \<Rightarrow> string \<Rightarrow> error + string" where
  "do_validate field v =
     (case choices field of
        None \<Rightarrow> Inr v
      | Some cs \<Rightarrow> if v \<in> set cs then Inr v else Inl (InvalidChoice field v))"

text \<open>
  \<open>getattr(cls, field)\<close> for the string properties: the value an entity has for the
  property of that name. Names that are not string properties have no value here; the
  callers never reach them.
\<close>

definition getattr :: "string \<Rightarrow> suggestion \<Rightarrow> string option" where
  "getattr field r =
     (if field = ''suggestion_type'' then Some (suggestion_type r)
      else if field = ''target_type'' then Some (target_type r)
      else if field = ''target_id'' then Some (target_id r)
      else if field = ''status'' then Some (status r)
      else if field = ''author_id'' then Some (author_id r)
      else if field = ''final_reviewer_id'' then final_reviewer_id r
      else if field = ''score_category'' then Some (score_category r)
      else None)"

text \<open>
  Modelled from the spec: the filter nodes \<open>prop == value\<close>, \<open>prop != value\<close> and
  \<open>prop.IN(values)\<close> of the store adapter, which are missing from the sources.
  Building a node validates the values it compares with.
\<close>

definition prop_eq :: "string \<Rightarrow> string \<Rightarrow> error + ndb_query" where
  "prop_eq field v =
     (case do_validate field v of
        Inl e \<Rightarrow> Inl e
      | Inr w \<Rightarrow> Inr (\<lambda>r. getattr field r = Some w))"

definition prop_ne :: "string \<Rightarrow> string \<Rightarrow> error + ndb_query" where
  "prop_ne field v =
     (case do_validate field v of
        Inl e \<Rightarrow> Inl e
      | Inr w \<Rightarrow> Inr (\<lambda>r. getattr field r \<noteq> Some w))"

fun validate_all :: "string \<Rightarrow> string list \<Rightarrow> error + string list" where
  "validate_all field [] = Inr []"
| "validate_all field (v # vs) =
     (case do_validate field v of
        Inl e \<Rightarrow> Inl e
      | Inr w \<Rightarrow> (case validate_all field vs of Inl e \<Rightarrow> Inl e | Inr ws \<Rightarrow> Inr (w # ws)))"

definition prop_IN :: "string \<Rightarrow> string list \<Rightarrow> error + ndb_query" where
  "prop_IN field vs =
     (case validate_all field vs of
        Inl e \<Rightarrow> Inl e
      | Inr ws \<Rightarrow> Inr (\<lambda>r. \<exists>w \<in> set ws. getattr field r = Some w))"

subsection \<open>GeneralSuggestionModel\<close>

text \<open>
  \<open>create\<close>. The key is looked up first; then the entity is built, which validates the
  three properties that have \<open>choices\<close> (in the order of their declaration); then it
  is written. \<open>now\<close> is the clock at the time of the write.
\<close>

definition create ::
  "string \<Rightarrow> string \<Rightarrow> string \<Rightarrow> int \<Rightarrow> string \<Rightarrow> string \<Rightarrow> string option \<Rightarrow> json \<Rightarrow> string
     \<Rightarrow> string \<Rightarrow> int \<Rightarrow> unit datastore_op" where
  "create suggestion_type' target_type' target_id' target_version_at_submission' status'
      author_id' final_reviewer_id' change_cmd' score_category' thread_id now s =
     (let instance_id = thread_id in
      if get_by_id instance_id s \<noteq> None then (Inl (DuplicateId instance_id), s)
      else case do_validate ''suggestion_type'' suggestion_type' of
        Inl e \<Rightarrow> (Inl e, s)
      | Inr st \<Rightarrow>
          (case do_validate ''target_type'' target_type' of
             Inl e \<Rightarrow> (Inl e, s)
           | Inr tt \<Rightarrow>
               (case do_validate ''status'' status' of
                  Inl e \<Rightarrow> (Inl e, s)
                | Inr stat \<Rightarrow>
                    (Inr (),
                     put \<lparr>model_id = instance_id, suggestion_type = st, target_type = tt,
                          target_id = target_id',
                          target_version_at_submission = target_version_at_submission',
                          status = stat, author_id = author_id',
                          final_reviewer_id = final_reviewer_id',
                          change_cmd = change_cmd', score_category = score_category',
                          last_updated = now\<rparr> now s))))"

text \<open>
  \<open>query_suggestions\<close>. The loop handles the pairs in the order given: the allow-list
  test of a pair, then the comparison of its value with the property (which validates
  the value), then the next pair. The query is fetched after the loop.
  \<open>DEFAULT_QUERY_LIMIT\<close> is a constant of a configuration module that is not among the
  sources; the operations that pass it to \<open>fetch\<close> take it as their first argument.
\<close>

fun query_suggestions_loop :: "ndb_query \<Rightarrow> (string \<times> string) list \<Rightarrow> error + ndb_query" where
  "query_suggestions_loop q [] = Inr q"
| "query_suggestions_loop q ((field, v) # rest) =
     (if field \<notin> set ALLOWED_QUERY_FIELDS then Inl (InvalidField field)
      else case prop_eq field v of
        Inl e \<Rightarrow> Inl e
      | Inr node \<Rightarrow> query_suggestions_loop (filter_query q node) rest)"

definition query_suggestions :: "nat \<Rightarrow> (string \<times> string) list \<Rightarrow> suggestion list datastore_op" where
  "query_suggestions DEFAULT_QUERY_LIMIT query_fields_and_values s =
     (case query_suggestions_loop query query_fields_and_values of
        Inl e \<Rightarrow> (Inl e, s)
      | Inr q \<Rightarrow> (Inr (fetch (Some DEFAULT_QUERY_LIMIT) q s), s))"

text \<open>
  \<open>datetime.timedelta(days, seconds, microseconds, milliseconds)\<close>, in microseconds.
\<close>

definition timedelta :: "int \<Rightarrow> int \<Rightarrow> int \<Rightarrow> int \<Rightarrow> int" where
  "timedelta days seconds microseconds milliseconds =
     (days * 86400 + seconds) * 1000000 + microseconds + milliseconds * 1000"

text \<open>
  \<open>get_all_stale_suggestions\<close>. The threshold is the module variable
  \<open>THRESHOLD_TIME_BEFORE_ACCEPT_IN_MSECS\<close>, which the tests replace; it is the first
  argument here. \<open>utcnow\<close> is the clock at the time of the call, in microseconds. Times
  are unbounded integers: the range limits of \<open>datetime\<close> are left out.
\<close>

definition get_all_stale_suggestions :: "int \<Rightarrow> int \<Rightarrow> suggestion list datastore_op" where
  "get_all_stale_suggestions threshold_msecs utcnow s =
     (let threshold_time = utcnow - timedelta 0 0 0 threshold_msecs in
      case prop_eq ''status'' STATUS_IN_REVIEW of
        Inl e \<Rightarrow> (Inl e, s)
      | Inr in_review \<Rightarrow>
          (Inr (fetch None
                  (filter_query (filter_query get_all in_review)
                     (\<lambda>r. last_updated r < threshold_time)) s), s))"

text \<open>
  \<open>get_in_review_suggestions_in_score_categories\<close>,
  \<open>get_in_review_suggestions_of_suggestion_type\<close> and
  \<open>get_user_created_suggestions_of_suggestion_type\<close>.
\<close>

definition get_in_review_suggestions_in_score_categories ::
  "nat \<Rightarrow> string list \<Rightarrow> string \<Rightarrow> suggestion list datastore_op" where
  "get_in_review_suggestions_in_score_categories DEFAULT_QUERY_LIMIT score_categories user_id s =
     (if length score_categories = 0 then (Inl EmptyInput, s)
      else case prop_eq ''status'' STATUS_IN_REVIEW of
        Inl e \<Rightarrow> (Inl e, s)
      | Inr in_review \<Rightarrow>
          (case prop_IN ''score_category'' score_categories of
             Inl e \<Rightarrow> (Inl e, s)
           | Inr in_categories \<Rightarrow>
               (case prop_ne ''author_id'' user_id of
                  Inl e \<Rightarrow> (Inl e, s)
                | Inr not_author \<Rightarrow>
                    (Inr (fetch (Some DEFAULT_QUERY_LIMIT)
                            (filter_query
                               (filter_query (filter_query get_all in_review) in_categories)
                               not_author) s), s))))"

definition get_in_review_suggestions_of_suggestion_type ::
  "nat \<Rightarrow> string \<Rightarrow> string \<Rightarrow> suggestion list datastore_op" where
  "get_in_review_suggestions_of_suggestion_type DEFAULT_QUERY_LIMIT suggestion_type' user_id s =
     (case prop_eq ''status'' STATUS_IN_REVIEW of
        Inl e \<Rightarrow> (Inl e, s)
      | Inr in_review \<Rightarrow>
          (case prop_eq ''suggestion_type'' suggestion_type' of
             Inl e \<Rightarrow> (Inl e, s)
           | Inr of_type \<Rightarrow>
               (case prop_ne ''author_id'' user_id of
                  Inl e \<Rightarrow> (Inl e, s)
                | Inr not_author \<Rightarrow>
                    (Inr (fetch (Some DEFAULT_QUERY_LIMIT)
                            (filter_query (filter_query (filter_query get_all in_review) of_type)
                               not_author) s), s))))"

definition get_user_created_suggestions_of_suggestion_type ::
  "nat \<Rightarrow> string \<Rightarrow> string \<Rightarrow> suggestion list datastore_op" where
  "get_user_created_suggestions_of_suggestion_type DEFAULT_QUERY_LIMIT suggestion_type' user_id s =
     (case prop_eq ''status'' STATUS_IN_REVIEW of
        Inl e \<Rightarrow> (Inl e, s)
      | Inr in_review \<Rightarrow>
          (case prop_eq ''suggestion_type'' suggestion_type' of
             Inl e \<Rightarrow> (Inl e, s)
           | Inr of_type \<Rightarrow>
               (case prop_eq ''author_id'' user_id of
                  Inl e \<Rightarrow> (Inl e, s)
                | Inr by_author \<Rightarrow>
                    (Inr (fetch (Some DEFAULT_QUERY_LIMIT)
                            (filter_query (filter_query (filter_query get_all in_review) of_type)
                               by_author) s), s))))"

text \<open>
  \<open>export_data\<close>. The dictionary written for one suggestion has the six keys of the
  source; the loop stores it under the suggestion's id, a later entity with the same id
  replacing an earlier one as a dictionary assignment does.
\<close>

definition export_entry :: "suggestion \<Rightarrow> (string \<rightharpoonup> json)" where
  "export_entry suggestion_model =
     [''suggestion_type'' \<mapsto> JString (suggestion_type suggestion_model),
      ''target_type'' \<mapsto> JString (target_type suggestion_model),
      ''target_id'' \<mapsto> JString (target_id suggestion_model),
      ''target_version_at_submission'' \<mapsto> JInt (target_version_at_submission suggestion_model),
      ''status'' \<mapsto> JString (status suggestion_model),
      ''change_cmd'' \<mapsto> change_cmd suggestion_model]"

fun export_loop ::
  "(string \<rightharpoonup> (string \<rightharpoonup> json)) \<Rightarrow> suggestion list \<Rightarrow> (string \<rightharpoonup> (string \<rightharpoonup> json))" where
  "export_loop user_data [] = user_data"
| "export_loop user_data (suggestion_model # rest) =
     export_loop (user_data(model_id suggestion_model \<mapsto> export_entry suggestion_model)) rest"

definition export_data :: "string \<Rightarrow> (string \<rightharpoonup> (string \<rightharpoonup> json)) datastore_op" where
  "export_data user_id s =
     (case prop_eq ''author_id'' user_id of
        Inl e \<Rightarrow> (Inl e, s)
      | Inr by_author \<Rightarrow>
          (Inr (export_loop Map.empty (fetch None (filter_query get_all by_author) s)), s))"

subsection \<open>Score categories\<close>


subsection \<open>Example data\<close>

text \<open>
  The suggestions of the unit tests: an edit of exploration \<open>exp1\<close> at version 1 with an
  empty change, under a thread id, with a status, an author, a score category and a time
  of last update.
\<close>

definition example_suggestion :: "string \<Rightarrow> string \<Rightarrow> string \<Rightarrow> string \<Rightarrow> int \<Rightarrow> suggestion" where
  "example_suggestion thread_id status' author score updated =
     \<lparr>model_id = thread_id, suggestion_type = SUGGESTION_TYPE_EDIT_STATE_CONTENT,
      target_type = TARGET_TYPE_EXPLORATION, target_id = ''exp1'',
      target_version_at_submission = 1, status = status', author_id = author,
      final_reviewer_id = Some ''reviewer_1'', change_cmd = JDict [],
      score_category = score, last_updated = updated\<rparr>"

section \<open>Properties\<close>

subsection \<open>The store adapter on the properties of the model\<close>

lemma getattr_simps:
  "getattr ''suggestion_type'' r = Some (suggestion_type r)"
  "getattr ''target_type'' r = Some (target_type r)"
  "getattr ''target_id'' r = Some (target_id r)"
  "getattr ''status'' r = Some (status r)"
  "getattr ''author_id'' r = Some (author_id r)"
  "getattr ''final_reviewer_id'' r = final_reviewer_id r"
  "getattr ''score_category'' r = Some (score_category r)"
  by (simp_all add: getattr_def)

lemma choices_simps:
  "choices ''suggestion_type'' = Some SUGGESTION_TYPE_CHOICES"
  "choices ''target_type'' = Some TARGET_TYPE_CHOICES"
  "choices ''status'' = Some STATUS_CHOICES"
  "choices ''target_id'' = None"
  "choices ''author_id'' = None"
  "choices ''final_reviewer_id'' = None"
  "choices ''score_category'' = None"
  by (simp_all add: choices_def)

lemma prop_eq_status_in_review:
  "prop_eq ''status'' STATUS_IN_REVIEW = Inr (\<lambda>r. status r = STATUS_IN_REVIEW)"
  by (simp add: prop_eq_def do_validate_def choices_simps getattr_simps STATUS_CHOICES_def)

lemma prop_eq_author_id:
  "prop_eq ''author_id'' u = Inr (\<lambda>r. author_id r = u)"
  by (simp add: prop_eq_def do_validate_def choices_simps getattr_simps)

lemma prop_ne_author_id:
  "prop_ne ''author_id'' u = Inr (\<lambda>r. author_id r \<noteq> u)"
  by (simp add: prop_ne_def do_validate_def choices_simps getattr_simps)

lemma validate_all_score_category:
  "validate_all ''score_category'' vs = Inr vs"
  by (induction vs) (simp_all add: do_validate_def choices_simps)

lemma prop_IN_score_category:
  "prop_IN ''score_category'' vs = Inr (\<lambda>r. score_category r \<in> set vs)"
  by (auto simp add: prop_IN_def validate_all_score_category getattr_simps)

lemma fetch_get_all:
  "fetch limit (filter_query (filter_query (filter_query get_all p1) p2) p3) s =
     (case limit of None \<Rightarrow> List.filter (\<lambda>r. p1 r \<and> p2 r \<and> p3 r) s
        | Some n \<Rightarrow> take n (List.filter (\<lambda>r. p1 r \<and> p2 r \<and> p3 r) s))"
  "fetch limit (filter_query (filter_query get_all p1) p2) s =
     (case limit of None \<Rightarrow> List.filter (\<lambda>r. p1 r \<and> p2 r) s
        | Some n \<Rightarrow> take n (List.filter (\<lambda>r. p1 r \<and> p2 r) s))"
  "fetch limit (filter_query get_all p1) s =
     (case limit of None \<Rightarrow> List.filter p1 s | Some n \<Rightarrow> take n (List.filter p1 s))"
  by (simp_all add: fetch_def filter_query_def get_all_def query_def)

subsection \<open>Creation\<close>


lemma do_validate_cases:
  "do_validate field v = Inr v \<or> do_validate field v = Inl (InvalidChoice field v)"
  by (simp add: do_validate_def split: option.splits)

lemma do_validate_choice:
  "do_validate ''suggestion_type'' v =
     (if v \<in> set SUGGESTION_TYPE_CHOICES then Inr v else Inl (InvalidChoice ''suggestion_type'' v))"
  "do_validate ''target_type'' v =
     (if v \<in> set TARGET_TYPE_CHOICES then Inr v else Inl (InvalidChoice ''target_type'' v))"
  "do_validate ''status'' v =
     (if v \<in> set STATUS_CHOICES then Inr v else Inl (InvalidChoice ''status'' v))"
  by (simp_all add: do_validate_def choices_simps)




subsection \<open>Stale suggestions\<close>

text \<open>
  C2 (amended). For every datastore, threshold and time of the call, a suggestion is
  returned by \<open>get_all_stale_suggestions\<close> if and only if it is in the datastore, its
  status is in review and the time since its last update is strictly greater than the
  threshold (milliseconds, compared in microseconds); the datastore is left as it was.
  With the threshold 0 every suggestion in review that was last updated before the time of
  the call is returned; a suggestion whose age equals the threshold is not returned; the
  default threshold is seven days.
\<close>

theorem stale_suggestions_strict:
  "(\<exists>rs. get_all_stale_suggestions threshold_msecs utcnow s = (Inr rs, s) \<and>
      (\<forall>r. r \<in> set rs \<longleftrightarrow>
         r \<in> set s \<and> status r = STATUS_IN_REVIEW \<and>
         utcnow - last_updated r > threshold_msecs * 1000)) \<and>
   (x \<in> set s \<and> status x = STATUS_IN_REVIEW \<and> last_updated x < utcnow \<longrightarrow>
      x \<in> set (projr (fst (get_all_stale_suggestions 0 utcnow s)))) \<and>
   (utcnow - last_updated x = threshold_msecs * 1000 \<longrightarrow>
      x \<notin> set (projr (fst (get_all_stale_suggestions threshold_msecs utcnow s)))) \<and>
   THRESHOLD_TIME_BEFORE_ACCEPT_IN_MSECS * 1000 = timedelta 7 0 0 0"
proof -
  have eq: "get_all_stale_suggestions t n s =
      (Inr (List.filter (\<lambda>r. status r = STATUS_IN_REVIEW \<and> last_updated r < n - t * 1000) s), s)"
    for t n
    by (simp add: get_all_stale_suggestions_def prop_eq_status_in_review fetch_get_all
        timedelta_def)
  show ?thesis
  proof (intro conjI impI)
    show "\<exists>rs. get_all_stale_suggestions threshold_msecs utcnow s = (Inr rs, s) \<and>
      (\<forall>r. r \<in> set rs \<longleftrightarrow>
         r \<in> set s \<and> status r = STATUS_IN_REVIEW \<and>
         utcnow - last_updated r > threshold_msecs * 1000)"
      unfolding eq by auto
  next
    assume "x \<in> set s \<and> status x = STATUS_IN_REVIEW \<and> last_updated x < utcnow"
    then show "x \<in> set (projr (fst (get_all_stale_suggestions 0 utcnow s)))"
      unfolding eq by simp
  next
    assume "utcnow - last_updated x = threshold_msecs * 1000"
    then show "x \<notin> set (projr (fst (get_all_stale_suggestions threshold_msecs utcnow s)))"
      unfolding eq by simp
  next
    show "THRESHOLD_TIME_BEFORE_ACCEPT_IN_MSECS * 1000 = timedelta 7 0 0 0"
      by (simp add: THRESHOLD_TIME_BEFORE_ACCEPT_IN_MSECS_def THRESHOLD_DAYS_BEFORE_ACCEPT_def
          timedelta_def)
  qed
qed

theorem stale_suggestions_strict_witness:
  "example_suggestion ''thread_1'' STATUS_IN_REVIEW ''author_1'' ''translation.English'' 5
     \<in> set [example_suggestion ''thread_1'' STATUS_IN_REVIEW ''author_1'' ''translation.English'' 5] \<and>
   status (example_suggestion ''thread_1'' STATUS_IN_REVIEW ''author_1'' ''translation.English'' 5)
     = STATUS_IN_REVIEW \<and>
   last_updated (example_suggestion ''thread_1'' STATUS_IN_REVIEW ''author_1'' ''translation.English'' 5)
     < 6 \<and>
   example_suggestion ''thread_1'' STATUS_IN_REVIEW ''author_1'' ''translation.English'' 5
     \<in> set (projr (fst (get_all_stale_suggestions 0 6
         [example_suggestion ''thread_1'' STATUS_IN_REVIEW ''author_1'' ''translation.English'' 5]))) \<and>
   2005 - last_updated (example_suggestion ''thread_1'' STATUS_IN_REVIEW ''author_1'' ''translation.English'' 5)
     = 2 * 1000 \<and>
   example_suggestion ''thread_1'' STATUS_IN_REVIEW ''author_1'' ''translation.English'' 5
     \<notin> set (projr (fst (get_all_stale_suggestions 2 2005
         [example_suggestion ''thread_1'' STATUS_IN_REVIEW ''author_1'' ''translation.English'' 5])))"
  using stale_suggestions_strict [of 0 6
      "[example_suggestion ''thread_1'' STATUS_IN_REVIEW ''author_1'' ''translation.English'' 5]"
      "example_suggestion ''thread_1'' STATUS_IN_REVIEW ''author_1'' ''translation.English'' 5"]
    stale_suggestions_strict [of 2 2005
      "[example_suggestion ''thread_1'' STATUS_IN_REVIEW ''author_1'' ''translation.English'' 5]"
      "example_suggestion ''thread_1'' STATUS_IN_REVIEW ''author_1'' ''translation.English'' 5"]
  by (simp add: example_suggestion_def)

text \<open>
  C2 as stated fails: a suggestion in review whose age is exactly the default threshold
  is not returned, and with the threshold 0 a suggestion in review updated at the very
  time of the call is not returned.
\<close>

theorem stale_at_threshold_counterexample:
  "status (example_suggestion ''thread_1'' STATUS_IN_REVIEW ''author_1'' ''translation.English'' 0)
     = STATUS_IN_REVIEW \<and>
   604800000000 - last_updated (example_suggestion ''thread_1'' STATUS_IN_REVIEW ''author_1'' ''translation.English'' 0)
     = THRESHOLD_TIME_BEFORE_ACCEPT_IN_MSECS * 1000 \<and>
   get_all_stale_suggestions THRESHOLD_TIME_BEFORE_ACCEPT_IN_MSECS 604800000000
       [example_suggestion ''thread_1'' STATUS_IN_REVIEW ''author_1'' ''translation.English'' 0]
     = (Inr [], [example_suggestion ''thread_1'' STATUS_IN_REVIEW ''author_1'' ''translation.English'' 0]) \<and>
   get_all_stale_suggestions 0 0
       [example_suggestion ''thread_1'' STATUS_IN_REVIEW ''author_1'' ''translation.English'' 0]
     = (Inr [], [example_suggestion ''thread_1'' STATUS_IN_REVIEW ''author_1'' ''translation.English'' 0])"
  by (simp add: get_all_stale_suggestions_def prop_eq_status_in_review fetch_get_all
      timedelta_def example_suggestion_def THRESHOLD_TIME_BEFORE_ACCEPT_IN_MSECS_def
      THRESHOLD_DAYS_BEFORE_ACCEPT_def)

subsection \<open>Review queries by score category\<close>

text \<open>
  C4. For every non-empty list of score categories and every user, the review query by
  score categories succeeds and returns the suggestions of the datastore that are in
  review, whose score category is one of the given ones and whose author is not the
  user, up to the query limit, and leaves the datastore as it was. In particular, with a
  suggestion A (author X, category C, in review) and a suggestion B (author Y other than X,
  category C, in review) in the datastore and a limit of at least one, the query for C
  excluding X returns B alone.
\<close>

theorem reviewable_by_category:
  "(score_categories \<noteq> [] \<longrightarrow>
      get_in_review_suggestions_in_score_categories DEFAULT_QUERY_LIMIT score_categories user_id s =
        (Inr (take DEFAULT_QUERY_LIMIT
                (List.filter
                   (\<lambda>r. status r = STATUS_IN_REVIEW \<and> score_category r \<in> set score_categories \<and>
                        author_id r \<noteq> user_id) s)), s)) \<and>
   (status A = STATUS_IN_REVIEW \<and> status B = STATUS_IN_REVIEW \<and>
    score_category A = C \<and> score_category B = C \<and>
    author_id A = X \<and> author_id B = Y \<and> X \<noteq> Y \<and> 0 < DEFAULT_QUERY_LIMIT \<longrightarrow>
      get_in_review_suggestions_in_score_categories DEFAULT_QUERY_LIMIT [C] X [A, B] =
        (Inr [B], [A, B]))"
proof -
  have general: "get_in_review_suggestions_in_score_categories n cs u t =
      (Inr (take n (List.filter
          (\<lambda>r. status r = STATUS_IN_REVIEW \<and> score_category r \<in> set cs \<and> author_id r \<noteq> u) t)), t)"
    if "cs \<noteq> []" for n cs u t
    using that
    by (simp add: get_in_review_suggestions_in_score_categories_def prop_eq_status_in_review
        prop_IN_score_category prop_ne_author_id fetch_get_all)
  show ?thesis
  proof (intro conjI impI)
    assume "score_categories \<noteq> []"
    then show "get_in_review_suggestions_in_score_categories DEFAULT_QUERY_LIMIT score_categories user_id s =
        (Inr (take DEFAULT_QUERY_LIMIT
                (List.filter
                   (\<lambda>r. status r = STATUS_IN_REVIEW \<and> score_category r \<in> set score_categories \<and>
                        author_id r \<noteq> user_id) s)), s)"
      by (rule general)
  next
    assume h: "status A = STATUS_IN_REVIEW \<and> status B = STATUS_IN_REVIEW \<and>
      score_category A = C \<and> score_category B = C \<and>
      author_id A = X \<and> author_id B = Y \<and> X \<noteq> Y \<and> 0 < DEFAULT_QUERY_LIMIT"
    then obtain k where k: "DEFAULT_QUERY_LIMIT = Suc k"
      by (cases DEFAULT_QUERY_LIMIT) auto
    have "[C] \<noteq> []" by simp
    from general [OF this, of DEFAULT_QUERY_LIMIT X "[A, B]"] h k
    show "get_in_review_suggestions_in_score_categories DEFAULT_QUERY_LIMIT [C] X [A, B] =
        (Inr [B], [A, B])"
      by auto
  qed
qed

theorem reviewable_by_category_witness:
  "[''translation.English''] \<noteq> [] \<and>
   get_in_review_suggestions_in_score_categories 1000 [''translation.English''] ''author_1''
     [example_suggestion ''thread_1'' STATUS_IN_REVIEW ''author_1'' ''translation.English'' 0,
      example_suggestion ''thread_2'' STATUS_IN_REVIEW ''author_2'' ''translation.English'' 0]
   = (Inr [example_suggestion ''thread_2'' STATUS_IN_REVIEW ''author_2'' ''translation.English'' 0],
      [example_suggestion ''thread_1'' STATUS_IN_REVIEW ''author_1'' ''translation.English'' 0,
       example_suggestion ''thread_2'' STATUS_IN_REVIEW ''author_2'' ''translation.English'' 0])"
  using reviewable_by_category [of "[''translation.English'']" 1000 "''author_1''"
      "[example_suggestion ''thread_1'' STATUS_IN_REVIEW ''author_1'' ''translation.English'' 0,
        example_suggestion ''thread_2'' STATUS_IN_REVIEW ''author_2'' ''translation.English'' 0]"
      "example_suggestion ''thread_1'' STATUS_IN_REVIEW ''author_1'' ''translation.English'' 0"
      "example_suggestion ''thread_2'' STATUS_IN_REVIEW ''author_2'' ''translation.English'' 0"
      "''translation.English''" "''author_1''" "''author_2''"]
  by (simp add: example_suggestion_def)


text \<open>
  C5. For every user and every datastore, the review query by score categories called with
  an empty list of categories fails with EmptyInput, whatever the datastore holds (it is
  read neither as match-nothing nor as match-everything), and leaves the datastore as it
  was.
\<close>

theorem empty_score_categories_rejected:
  "get_in_review_suggestions_in_score_categories DEFAULT_QUERY_LIMIT [] user_id s
     = (Inl EmptyInput, s)"
  by (simp add: get_in_review_suggestions_in_score_categories_def)

subsection \<open>The generic query\<close>

lemma prop_eq_valid:
  "do_validate f v = Inr v \<Longrightarrow> prop_eq f v = Inr (\<lambda>r. getattr f r = Some v)"
  by (simp add: prop_eq_def)

lemma prop_eq_invalid:
  "do_validate f v \<noteq> Inr v \<Longrightarrow> prop_eq f v = Inl (InvalidChoice f v)"
  using do_validate_cases [of f v] by (auto simp add: prop_eq_def)

lemma query_suggestions_loop_Inr:
  "\<forall>(f, v) \<in> set qfv. f \<in> set ALLOWED_QUERY_FIELDS \<and> do_validate f v = Inr v \<Longrightarrow>
   query_suggestions_loop q qfv = Inr (\<lambda>r. q r \<and> (\<forall>(f, v) \<in> set qfv. getattr f r = Some v))"
proof (induction qfv arbitrary: q)
  case Nil
  then show ?case by simp
next
  case (Cons p qfv)
  obtain f v where p: "p = (f, v)" by (cases p)
  from Cons.prems p have ok: "f \<in> set ALLOWED_QUERY_FIELDS" "do_validate f v = Inr v"
    and rest: "\<forall>(f, v) \<in> set qfv. f \<in> set ALLOWED_QUERY_FIELDS \<and> do_validate f v = Inr v"
    by auto
  have "query_suggestions_loop q (p # qfv) =
      query_suggestions_loop (filter_query q (\<lambda>r. getattr f r = Some v)) qfv"
    using ok p by (simp add: prop_eq_valid)
  also have "\<dots> = Inr (\<lambda>r. filter_query q (\<lambda>r. getattr f r = Some v) r \<and>
      (\<forall>(f, v) \<in> set qfv. getattr f r = Some v))"
    by (rule Cons.IH [OF rest])
  also have "(\<lambda>r. filter_query q (\<lambda>r. getattr f r = Some v) r \<and>
      (\<forall>(f, v) \<in> set qfv. getattr f r = Some v)) =
      (\<lambda>r. q r \<and> (\<forall>(f, v) \<in> set (p # qfv). getattr f r = Some v))"
    using p by (auto simp add: filter_query_def fun_eq_iff)
  finally show ?case .
qed

lemma query_suggestions_loop_prefix:
  "\<forall>(g, w) \<in> set pre. g \<in> set ALLOWED_QUERY_FIELDS \<and> do_validate g w = Inr w \<Longrightarrow>
   query_suggestions_loop q (pre @ rest) =
     query_suggestions_loop (\<lambda>r. q r \<and> (\<forall>(g, w) \<in> set pre. getattr g r = Some w)) rest"
proof (induction pre arbitrary: q)
  case Nil
  then show ?case by simp
next
  case (Cons p pre)
  obtain f v where p: "p = (f, v)" by (cases p)
  from Cons.prems p have ok: "f \<in> set ALLOWED_QUERY_FIELDS" "do_validate f v = Inr v"
    and more: "\<forall>(g, w) \<in> set pre. g \<in> set ALLOWED_QUERY_FIELDS \<and> do_validate g w = Inr w"
    by auto
  have "query_suggestions_loop q ((p # pre) @ rest) =
      query_suggestions_loop (filter_query q (\<lambda>r. getattr f r = Some v)) (pre @ rest)"
    using ok p by (simp add: prop_eq_valid)
  also have "\<dots> = query_suggestions_loop
      (\<lambda>r. filter_query q (\<lambda>r. getattr f r = Some v) r \<and>
           (\<forall>(g, w) \<in> set pre. getattr g r = Some w)) rest"
    by (rule Cons.IH [OF more])
  also have "(\<lambda>r. filter_query q (\<lambda>r. getattr f r = Some v) r \<and>
      (\<forall>(g, w) \<in> set pre. getattr g r = Some w)) =
      (\<lambda>r. q r \<and> (\<forall>(g, w) \<in> set (p # pre). getattr g r = Some w))"
    using p by (auto simp add: filter_query_def fun_eq_iff)
  finally show ?case .
qed

lemma query_suggestions_loop_first_bad:
  assumes "\<not> (\<forall>(f, v) \<in> set qfv. f \<in> set ALLOWED_QUERY_FIELDS \<and> do_validate f v = Inr v)"
  shows "\<exists>pre f v rest. qfv = pre @ (f, v) # rest \<and>
     (\<forall>(g, w) \<in> set pre. g \<in> set ALLOWED_QUERY_FIELDS \<and> do_validate g w = Inr w) \<and>
     \<not> (f \<in> set ALLOWED_QUERY_FIELDS \<and> do_validate f v = Inr v)"
proof -
  let ?ok = "\<lambda>p. case p of (f, v) \<Rightarrow> f \<in> set ALLOWED_QUERY_FIELDS \<and> do_validate f v = Inr v"
  from assms have "\<exists>p \<in> set qfv. \<not> ?ok p" by auto
  then obtain pre p rest where d: "qfv = pre @ p # rest" "\<not> ?ok p" "\<forall>x \<in> set pre. ?ok x"
    using split_list_first_prop [of qfv "\<lambda>p. \<not> ?ok p"] by auto
  obtain f v where "p = (f, v)" by (cases p)
  with d show ?thesis by blast
qed

lemma query_suggestions_loop_Inl:
  assumes "\<forall>(g, w) \<in> set pre. g \<in> set ALLOWED_QUERY_FIELDS \<and> do_validate g w = Inr w"
    and "\<not> (f \<in> set ALLOWED_QUERY_FIELDS \<and> do_validate f v = Inr v)"
  shows "query_suggestions_loop q (pre @ (f, v) # rest) =
     Inl (if f \<notin> set ALLOWED_QUERY_FIELDS then InvalidField f else InvalidChoice f v)"
  using assms(2) by (auto simp add: query_suggestions_loop_prefix [OF assms(1)] prop_eq_invalid)

text \<open>
  C3 (amended). For every list of filter pairs that has a pair whose field is outside the
  allow-list, \<open>query_suggestions\<close> fails, returns no suggestion and leaves the datastore
  as it was, whatever the other pairs are. The error is InvalidField for the first field
  outside the allow-list when every pair before it has an allowed field and a value that
  the store accepts for that field; when an earlier pair has an allowed field and a value
  outside the choice list of that field, the error is InvalidChoice for that pair.
\<close>

theorem disallowed_field_fails:
  "((\<exists>p \<in> set qfv. fst p \<notin> set ALLOWED_QUERY_FIELDS) \<longrightarrow>
      (\<exists>e. query_suggestions DEFAULT_QUERY_LIMIT qfv s = (Inl e, s) \<and>
         ((\<exists>f. e = InvalidField f \<and> f \<in> fst ` set qfv \<and> f \<notin> set ALLOWED_QUERY_FIELDS) \<or>
          (\<exists>f v. e = InvalidChoice f v \<and> (f, v) \<in> set qfv \<and> f \<in> set ALLOWED_QUERY_FIELDS \<and>
                 do_validate f v \<noteq> Inr v)))) \<and>
   (field \<notin> set ALLOWED_QUERY_FIELDS \<and>
    (\<forall>(g, w) \<in> set pre. g \<in> set ALLOWED_QUERY_FIELDS \<and> do_validate g w = Inr w) \<longrightarrow>
      query_suggestions DEFAULT_QUERY_LIMIT (pre @ (field, v) # rest) s =
        (Inl (InvalidField field), s)) \<and>
   (field \<in> set ALLOWED_QUERY_FIELDS \<and> do_validate field v \<noteq> Inr v \<and>
    (\<forall>(g, w) \<in> set pre. g \<in> set ALLOWED_QUERY_FIELDS \<and> do_validate g w = Inr w) \<longrightarrow>
      query_suggestions DEFAULT_QUERY_LIMIT (pre @ (field, v) # rest) s =
        (Inl (InvalidChoice field v), s))"
proof (intro conjI impI)
  assume bad: "\<exists>p \<in> set qfv. fst p \<notin> set ALLOWED_QUERY_FIELDS"
  then have "\<not> (\<forall>(f, v) \<in> set qfv. f \<in> set ALLOWED_QUERY_FIELDS \<and> do_validate f v = Inr v)"
    by auto
  from query_suggestions_loop_first_bad [OF this]
  obtain pre' f' v' rest' where d: "qfv = pre' @ (f', v') # rest'"
    and pre: "\<forall>(g, w) \<in> set pre'. g \<in> set ALLOWED_QUERY_FIELDS \<and> do_validate g w = Inr w"
    and notok: "\<not> (f' \<in> set ALLOWED_QUERY_FIELDS \<and> do_validate f' v' = Inr v')"
    by blast
  have loop: "query_suggestions_loop query qfv =
      Inl (if f' \<notin> set ALLOWED_QUERY_FIELDS then InvalidField f' else InvalidChoice f' v')"
    unfolding d by (rule query_suggestions_loop_Inl [OF pre notok])
  have mem: "(f', v') \<in> set qfv" "f' \<in> fst ` set qfv"
    using d by force+
  show "\<exists>e. query_suggestions DEFAULT_QUERY_LIMIT qfv s = (Inl e, s) \<and>
         ((\<exists>f. e = InvalidField f \<and> f \<in> fst ` set qfv \<and> f \<notin> set ALLOWED_QUERY_FIELDS) \<or>
          (\<exists>f v. e = InvalidChoice f v \<and> (f, v) \<in> set qfv \<and> f \<in> set ALLOWED_QUERY_FIELDS \<and>
                 do_validate f v \<noteq> Inr v))"
  proof (cases "f' \<in> set ALLOWED_QUERY_FIELDS")
    case True
    with notok have "do_validate f' v' \<noteq> Inr v'" by simp
    with True loop mem show ?thesis
      by (simp add: query_suggestions_def)
  next
    case False
    with loop mem show ?thesis
      by (simp add: query_suggestions_def)
  qed
next
  assume h: "field \<notin> set ALLOWED_QUERY_FIELDS \<and>
    (\<forall>(g, w) \<in> set pre. g \<in> set ALLOWED_QUERY_FIELDS \<and> do_validate g w = Inr w)"
  then have "query_suggestions_loop query (pre @ (field, v) # rest) = Inl (InvalidField field)"
    using query_suggestions_loop_Inl [of pre field v query rest] by simp
  then show "query_suggestions DEFAULT_QUERY_LIMIT (pre @ (field, v) # rest) s =
        (Inl (InvalidField field), s)"
    by (simp add: query_suggestions_def)
next
  assume h: "field \<in> set ALLOWED_QUERY_FIELDS \<and> do_validate field v \<noteq> Inr v \<and>
    (\<forall>(g, w) \<in> set pre. g \<in> set ALLOWED_QUERY_FIELDS \<and> do_validate g w = Inr w)"
  then have "query_suggestions_loop query (pre @ (field, v) # rest) = Inl (InvalidChoice field v)"
    using query_suggestions_loop_Inl [of pre field v query rest] by simp
  then show "query_suggestions DEFAULT_QUERY_LIMIT (pre @ (field, v) # rest) s =
        (Inl (InvalidChoice field v), s)"
    by (simp add: query_suggestions_def)
qed

lemma do_validate_no_choices:
  "do_validate ''target_id'' v = Inr v"
  "do_validate ''author_id'' v = Inr v"
  "do_validate ''final_reviewer_id'' v = Inr v"
  "do_validate ''score_category'' v = Inr v"
  by (simp_all add: do_validate_def choices_simps)

theorem disallowed_field_fails_witness:
  "fst (''invalid_field'', ''value'') \<notin> set ALLOWED_QUERY_FIELDS \<and>
   ''target_type'' \<in> set ALLOWED_QUERY_FIELDS \<and>
   do_validate ''target_type'' TARGET_TYPE_EXPLORATION = Inr TARGET_TYPE_EXPLORATION \<and>
   ''target_id'' \<in> set ALLOWED_QUERY_FIELDS \<and>
   do_validate ''target_id'' ''exp1'' = Inr ''exp1'' \<and>
   query_suggestions 1000
     ([(''target_type'', TARGET_TYPE_EXPLORATION), (''target_id'', ''exp1'')] @
      (''invalid_field'', ''value'') # [])
     [example_suggestion ''thread_1'' STATUS_IN_REVIEW ''author_1'' ''translation.English'' 0]
   = (Inl (InvalidField ''invalid_field''),
      [example_suggestion ''thread_1'' STATUS_IN_REVIEW ''author_1'' ''translation.English'' 0]) \<and>
   ''suggestion_type'' \<in> set ALLOWED_QUERY_FIELDS \<and>
   do_validate ''suggestion_type'' ''invalid_suggestion_type'' \<noteq> Inr ''invalid_suggestion_type'' \<and>
   query_suggestions 1000
     ([(''target_id'', ''exp1'')] @
      (''suggestion_type'', ''invalid_suggestion_type'') # [(''invalid_field'', ''value'')])
     [example_suggestion ''thread_1'' STATUS_IN_REVIEW ''author_1'' ''translation.English'' 0]
   = (Inl (InvalidChoice ''suggestion_type'' ''invalid_suggestion_type''),
      [example_suggestion ''thread_1'' STATUS_IN_REVIEW ''author_1'' ''translation.English'' 0]) \<and>
   (\<exists>e. query_suggestions 1000
           [(''target_type'', TARGET_TYPE_EXPLORATION), (''target_id'', ''exp1''),
            (''invalid_field'', ''value'')]
           [example_suggestion ''thread_1'' STATUS_IN_REVIEW ''author_1'' ''translation.English'' 0]
      = (Inl e,
         [example_suggestion ''thread_1'' STATUS_IN_REVIEW ''author_1'' ''translation.English'' 0]))"
proof -
  let ?s = "[example_suggestion ''thread_1'' STATUS_IN_REVIEW ''author_1'' ''translation.English'' 0]"
  let ?q = "[(''target_type'', TARGET_TYPE_EXPLORATION), (''target_id'', ''exp1''),
            (''invalid_field'', ''value'')]"
  have bad: "\<exists>p \<in> set ?q. fst p \<notin> set ALLOWED_QUERY_FIELDS"
    by (simp add: ALLOWED_QUERY_FIELDS_def)
  from disallowed_field_fails [of ?q 1000 ?s] bad
  have 1: "\<exists>e. query_suggestions 1000 ?q ?s = (Inl e, ?s)"
    by blast
  have v: "do_validate ''suggestion_type'' ''invalid_suggestion_type'' \<noteq> Inr ''invalid_suggestion_type''"
    by (simp add: do_validate_choice SUGGESTION_TYPE_CHOICES_def
        SUGGESTION_TYPE_EDIT_STATE_CONTENT_def SUGGESTION_TYPE_TRANSLATE_CONTENT_def
        SUGGESTION_TYPE_ADD_QUESTION_def)
  from v disallowed_field_fails [of ?q 1000 ?s "''suggestion_type''" "[(''target_id'', ''exp1'')]"
      "''invalid_suggestion_type''" "[(''invalid_field'', ''value'')]"]
  have 2: "query_suggestions 1000
     ([(''target_id'', ''exp1'')] @
      (''suggestion_type'', ''invalid_suggestion_type'') # [(''invalid_field'', ''value'')]) ?s
     = (Inl (InvalidChoice ''suggestion_type'' ''invalid_suggestion_type''), ?s)"
    by (simp add: ALLOWED_QUERY_FIELDS_def do_validate_no_choices)
  from disallowed_field_fails [of ?q 1000 ?s "''invalid_field''"
      "[(''target_type'', TARGET_TYPE_EXPLORATION), (''target_id'', ''exp1'')]" "''value''" "[]"]
  have 3: "query_suggestions 1000
     ([(''target_type'', TARGET_TYPE_EXPLORATION), (''target_id'', ''exp1'')] @
      (''invalid_field'', ''value'') # []) ?s
     = (Inl (InvalidField ''invalid_field''), ?s)"
    by (simp add: ALLOWED_QUERY_FIELDS_def do_validate_choice do_validate_no_choices
      TARGET_TYPE_CHOICES_def)
  from 1 2 3 v show ?thesis
    by (simp add: ALLOWED_QUERY_FIELDS_def do_validate_choice do_validate_no_choices
      TARGET_TYPE_CHOICES_def)
qed

text \<open>
  C3 as stated fails: a list with a disallowed field after a pair whose value is outside
  the choice list of its (allowed) field fails with InvalidChoice, not InvalidField.
\<close>

theorem disallowed_field_counterexample:
  "(''invalid_field'', ''value'') \<in>
     set [(''suggestion_type'', ''invalid_suggestion_type''), (''invalid_field'', ''value'')] \<and>
   ''invalid_field'' \<notin> set ALLOWED_QUERY_FIELDS \<and>
   query_suggestions 1000
     [(''suggestion_type'', ''invalid_suggestion_type''), (''invalid_field'', ''value'')]
     [example_suggestion ''thread_1'' STATUS_IN_REVIEW ''author_1'' ''translation.English'' 0]
   = (Inl (InvalidChoice ''suggestion_type'' ''invalid_suggestion_type''),
      [example_suggestion ''thread_1'' STATUS_IN_REVIEW ''author_1'' ''translation.English'' 0])"
  by (simp add: query_suggestions_def ALLOWED_QUERY_FIELDS_def prop_eq_def do_validate_choice
      SUGGESTION_TYPE_CHOICES_def SUGGESTION_TYPE_EDIT_STATE_CONTENT_def
      SUGGESTION_TYPE_TRANSLATE_CONTENT_def SUGGESTION_TYPE_ADD_QUESTION_def)

lemma query_suggestions_loop_fails:
  assumes "\<not> (\<forall>(f, v) \<in> set qfv. f \<in> set ALLOWED_QUERY_FIELDS \<and> do_validate f v = Inr v)"
  shows "\<exists>e. query_suggestions_loop q qfv = Inl e"
proof -
  from query_suggestions_loop_first_bad [OF assms]
  obtain pre f v rest where d: "qfv = pre @ (f, v) # rest"
    and pre: "\<forall>(g, w) \<in> set pre. g \<in> set ALLOWED_QUERY_FIELDS \<and> do_validate g w = Inr w"
    and notok: "\<not> (f \<in> set ALLOWED_QUERY_FIELDS \<and> do_validate f v = Inr v)"
    by blast
  show ?thesis
    unfolding d query_suggestions_loop_Inl [OF pre notok] by blast
qed

text \<open>
  C8 (amended). For every list of filter pairs whose fields are all in the allow-list and
  whose values the store accepts for their fields (a value of \<open>suggestion_type\<close>,
  \<open>target_type\<close> or \<open>status\<close> is in the choice list of the field),
  \<open>query_suggestions\<close> returns the suggestions of the datastore that satisfy every
  test \<open>field == value\<close> of the list, up to the query limit, and leaves the datastore as
  it was; the empty list is legal and returns the datastore's suggestions up to the
  limit. When the fields are all allowed and some value is outside the choice list of its
  field, the query fails with InvalidChoice for such a pair.
\<close>

theorem query_conjunction:
  "((\<forall>(f, v) \<in> set qfv. f \<in> set ALLOWED_QUERY_FIELDS \<and> do_validate f v = Inr v) \<longrightarrow>
      query_suggestions DEFAULT_QUERY_LIMIT qfv s =
        (Inr (take DEFAULT_QUERY_LIMIT
                (List.filter (\<lambda>r. \<forall>(f, v) \<in> set qfv. getattr f r = Some v) s)), s)) \<and>
   query_suggestions DEFAULT_QUERY_LIMIT [] s = (Inr (take DEFAULT_QUERY_LIMIT s), s) \<and>
   ((\<forall>(f, v) \<in> set qfv. f \<in> set ALLOWED_QUERY_FIELDS) \<and>
    (\<exists>(f, v) \<in> set qfv. do_validate f v \<noteq> Inr v) \<longrightarrow>
      (\<exists>f v. (f, v) \<in> set qfv \<and> do_validate f v \<noteq> Inr v \<and>
         query_suggestions DEFAULT_QUERY_LIMIT qfv s = (Inl (InvalidChoice f v), s)))"
proof (intro conjI impI)
  assume "\<forall>(f, v) \<in> set qfv. f \<in> set ALLOWED_QUERY_FIELDS \<and> do_validate f v = Inr v"
  from query_suggestions_loop_Inr [OF this, of query]
  show "query_suggestions DEFAULT_QUERY_LIMIT qfv s =
        (Inr (take DEFAULT_QUERY_LIMIT
                (List.filter (\<lambda>r. \<forall>(f, v) \<in> set qfv. getattr f r = Some v) s)), s)"
    by (simp add: query_suggestions_def fetch_def query_def)
next
  show "query_suggestions DEFAULT_QUERY_LIMIT [] s = (Inr (take DEFAULT_QUERY_LIMIT s), s)"
    by (simp add: query_suggestions_def fetch_def query_def)
next
  assume h: "(\<forall>(f, v) \<in> set qfv. f \<in> set ALLOWED_QUERY_FIELDS) \<and>
    (\<exists>(f, v) \<in> set qfv. do_validate f v \<noteq> Inr v)"
  then have "\<not> (\<forall>(f, v) \<in> set qfv. f \<in> set ALLOWED_QUERY_FIELDS \<and> do_validate f v = Inr v)"
    by auto
  from query_suggestions_loop_first_bad [OF this]
  obtain pre f v rest where d: "qfv = pre @ (f, v) # rest"
    and pre: "\<forall>(g, w) \<in> set pre. g \<in> set ALLOWED_QUERY_FIELDS \<and> do_validate g w = Inr w"
    and notok: "\<not> (f \<in> set ALLOWED_QUERY_FIELDS \<and> do_validate f v = Inr v)"
    by blast
  from d h have allowed: "f \<in> set ALLOWED_QUERY_FIELDS" by auto
  with notok have invalid: "do_validate f v \<noteq> Inr v" by simp
  have "query_suggestions_loop query qfv = Inl (InvalidChoice f v)"
    unfolding d using query_suggestions_loop_Inl [OF pre notok, of query rest] allowed by simp
  then have "query_suggestions DEFAULT_QUERY_LIMIT qfv s = (Inl (InvalidChoice f v), s)"
    by (simp add: query_suggestions_def)
  moreover have "(f, v) \<in> set qfv" using d by simp
  ultimately show "\<exists>f v. (f, v) \<in> set qfv \<and> do_validate f v \<noteq> Inr v \<and>
         query_suggestions DEFAULT_QUERY_LIMIT qfv s = (Inl (InvalidChoice f v), s)"
    using invalid by blast
qed

theorem query_conjunction_witness:
  "''author_id'' \<in> set ALLOWED_QUERY_FIELDS \<and> do_validate ''author_id'' ''author_2'' = Inr ''author_2'' \<and>
   ''status'' \<in> set ALLOWED_QUERY_FIELDS \<and> do_validate ''status'' STATUS_ACCEPTED = Inr STATUS_ACCEPTED \<and>
   query_suggestions 1000 [(''author_id'', ''author_2''), (''status'', STATUS_ACCEPTED)]
     [example_suggestion ''thread_1'' STATUS_IN_REVIEW ''author_1'' ''translation.English'' 0,
      example_suggestion ''thread_2'' STATUS_ACCEPTED ''author_2'' ''translation.English'' 0,
      example_suggestion ''thread_4'' STATUS_REJECTED ''author_2'' ''translation.English'' 0]
   = (Inr [example_suggestion ''thread_2'' STATUS_ACCEPTED ''author_2'' ''translation.English'' 0],
     [example_suggestion ''thread_1'' STATUS_IN_REVIEW ''author_1'' ''translation.English'' 0,
      example_suggestion ''thread_2'' STATUS_ACCEPTED ''author_2'' ''translation.English'' 0,
      example_suggestion ''thread_4'' STATUS_REJECTED ''author_2'' ''translation.English'' 0]) \<and>
   do_validate ''status'' ''unknown_status'' \<noteq> Inr ''unknown_status'' \<and>
   (\<exists>f v. query_suggestions 1000 [(''author_id'', ''author_2''), (''status'', ''unknown_status'')]
       [example_suggestion ''thread_1'' STATUS_IN_REVIEW ''author_1'' ''translation.English'' 0]
     = (Inl (InvalidChoice f v),
       [example_suggestion ''thread_1'' STATUS_IN_REVIEW ''author_1'' ''translation.English'' 0]))"
proof -
  let ?s = "[example_suggestion ''thread_1'' STATUS_IN_REVIEW ''author_1'' ''translation.English'' 0,
      example_suggestion ''thread_2'' STATUS_ACCEPTED ''author_2'' ''translation.English'' 0,
      example_suggestion ''thread_4'' STATUS_REJECTED ''author_2'' ''translation.English'' 0]"
  let ?t = "[example_suggestion ''thread_1'' STATUS_IN_REVIEW ''author_1'' ''translation.English'' 0]"
  let ?bad = "[(''author_id'', ''author_2''), (''status'', ''unknown_status'')]"
  have v: "do_validate ''status'' ''unknown_status'' \<noteq> Inr ''unknown_status''"
    by (simp add: do_validate_choice STATUS_CHOICES_def STATUS_ACCEPTED_def STATUS_IN_REVIEW_def
        STATUS_REJECTED_def)
  have a: "\<forall>(f, v) \<in> set ?bad. f \<in> set ALLOWED_QUERY_FIELDS"
    by (simp add: ALLOWED_QUERY_FIELDS_def)
  from v have b: "\<exists>(f, v) \<in> set ?bad. do_validate f v \<noteq> Inr v"
    by simp
  from query_conjunction [of ?bad 1000 ?t] a b
  have 1: "\<exists>f v. query_suggestions 1000 ?bad ?t = (Inl (InvalidChoice f v), ?t)"
    by blast
  from query_conjunction [of "[(''author_id'', ''author_2''), (''status'', STATUS_ACCEPTED)]" 1000 ?s]
  have 2: "query_suggestions 1000 [(''author_id'', ''author_2''), (''status'', STATUS_ACCEPTED)] ?s
     = (Inr [example_suggestion ''thread_2'' STATUS_ACCEPTED ''author_2'' ''translation.English'' 0], ?s)"
    by (simp add: ALLOWED_QUERY_FIELDS_def do_validate_choice do_validate_no_choices
      STATUS_CHOICES_def getattr_simps example_suggestion_def STATUS_ACCEPTED_def
      STATUS_IN_REVIEW_def STATUS_REJECTED_def)
  from 1 2 v show ?thesis
    by (simp add: ALLOWED_QUERY_FIELDS_def do_validate_choice do_validate_no_choices
      STATUS_CHOICES_def)
qed

text \<open>
  C8 as stated fails: a filter on the allowed field \<open>suggestion_type\<close> with a value
  outside its choice list returns no result set; the query fails with InvalidChoice (the
  case of \<open>test_get_suggestions_by_type\<close>).
\<close>

theorem query_invalid_choice_counterexample:
  "''suggestion_type'' \<in> set ALLOWED_QUERY_FIELDS \<and>
   query_suggestions 1000 [(''suggestion_type'', ''invalid_suggestion_type'')]
     [example_suggestion ''thread_1'' STATUS_IN_REVIEW ''author_1'' ''translation.English'' 0]
   = (Inl (InvalidChoice ''suggestion_type'' ''invalid_suggestion_type''),
      [example_suggestion ''thread_1'' STATUS_IN_REVIEW ''author_1'' ''translation.English'' 0])"
  by (simp add: query_suggestions_def ALLOWED_QUERY_FIELDS_def prop_eq_def do_validate_choice
      SUGGESTION_TYPE_CHOICES_def SUGGESTION_TYPE_EDIT_STATE_CONTENT_def
      SUGGESTION_TYPE_TRANSLATE_CONTENT_def SUGGESTION_TYPE_ADD_QUESTION_def)

text \<open>
  C10. For every list of filter pairs whose fields are all in the allow-list and every
  permutation of it, \<open>query_suggestions\<close> on the permuted list returns a result exactly
  when it does on the original list, and then the same suggestions (up to the limit, from
  the same datastore); it fails on the one exactly when it fails on the other.
\<close>

theorem query_order_independent:
  assumes "mset qfv' = mset qfv"
    and "\<forall>(f, v) \<in> set qfv. f \<in> set ALLOWED_QUERY_FIELDS"
  shows "(\<forall>rs. query_suggestions DEFAULT_QUERY_LIMIT qfv' s = (Inr rs, s) \<longleftrightarrow>
               query_suggestions DEFAULT_QUERY_LIMIT qfv s = (Inr rs, s)) \<and>
         (isl (fst (query_suggestions DEFAULT_QUERY_LIMIT qfv' s)) \<longleftrightarrow>
          isl (fst (query_suggestions DEFAULT_QUERY_LIMIT qfv s)))"
proof -
  from assms(1) have sets: "set qfv' = set qfv"
    by (rule mset_eq_setD)
  let ?ok = "\<lambda>xs. \<forall>(f, v) \<in> set xs. f \<in> set ALLOWED_QUERY_FIELDS \<and> do_validate f v = Inr v"
  show ?thesis
  proof (cases "?ok qfv")
    case True
    then have ok': "?ok qfv'" using sets by simp
    have "query_suggestions_loop query qfv' = query_suggestions_loop query qfv"
      unfolding query_suggestions_loop_Inr [OF True] query_suggestions_loop_Inr [OF ok'] sets ..
    then show ?thesis
      by (simp add: query_suggestions_def)
  next
    case False
    then have bad': "\<not> ?ok qfv'" using sets by simp
    from query_suggestions_loop_fails [OF False]
    obtain e where e: "query_suggestions_loop query qfv = Inl e"
      by blast
    from query_suggestions_loop_fails [OF bad']
    obtain e' where e': "query_suggestions_loop query qfv' = Inl e'"
      by blast
    from e e' show ?thesis
      by (simp add: query_suggestions_def)
  qed
qed

theorem query_order_independent_witness:
  "mset [(''status'', STATUS_ACCEPTED), (''author_id'', ''author_2'')] =
     mset [(''author_id'', ''author_2''), (''status'', STATUS_ACCEPTED)] \<and>
   ''author_id'' \<in> set ALLOWED_QUERY_FIELDS \<and> ''status'' \<in> set ALLOWED_QUERY_FIELDS \<and>
   query_suggestions 1000 [(''status'', STATUS_ACCEPTED), (''author_id'', ''author_2'')]
     [example_suggestion ''thread_1'' STATUS_IN_REVIEW ''author_1'' ''translation.English'' 0,
      example_suggestion ''thread_2'' STATUS_ACCEPTED ''author_2'' ''translation.English'' 0]
   = (Inr [example_suggestion ''thread_2'' STATUS_ACCEPTED ''author_2'' ''translation.English'' 0],
     [example_suggestion ''thread_1'' STATUS_IN_REVIEW ''author_1'' ''translation.English'' 0,
      example_suggestion ''thread_2'' STATUS_ACCEPTED ''author_2'' ''translation.English'' 0]) \<and>
   query_suggestions 1000 [(''author_id'', ''author_2''), (''status'', STATUS_ACCEPTED)]
     [example_suggestion ''thread_1'' STATUS_IN_REVIEW ''author_1'' ''translation.English'' 0,
      example_suggestion ''thread_2'' STATUS_ACCEPTED ''author_2'' ''translation.English'' 0]
   = (Inr [example_suggestion ''thread_2'' STATUS_ACCEPTED ''author_2'' ''translation.English'' 0],
     [example_suggestion ''thread_1'' STATUS_IN_REVIEW ''author_1'' ''translation.English'' 0,
      example_suggestion ''thread_2'' STATUS_ACCEPTED ''author_2'' ''translation.English'' 0])"
proof -
  have p: "mset [(''status'', STATUS_ACCEPTED), (''author_id'', ''author_2'')] =
     mset [(''author_id'', ''author_2''), (''status'', STATUS_ACCEPTED)]"
    by (simp add: add.commute)
  have a: "\<forall>(f, v) \<in> set [(''author_id'', ''author_2''), (''status'', STATUS_ACCEPTED)].
      f \<in> set ALLOWED_QUERY_FIELDS"
    by (simp add: ALLOWED_QUERY_FIELDS_def)
  have q: "query_suggestions 1000 [(''author_id'', ''author_2''), (''status'', STATUS_ACCEPTED)]
     [example_suggestion ''thread_1'' STATUS_IN_REVIEW ''author_1'' ''translation.English'' 0,
      example_suggestion ''thread_2'' STATUS_ACCEPTED ''author_2'' ''translation.English'' 0]
   = (Inr [example_suggestion ''thread_2'' STATUS_ACCEPTED ''author_2'' ''translation.English'' 0],
     [example_suggestion ''thread_1'' STATUS_IN_REVIEW ''author_1'' ''translation.English'' 0,
      example_suggestion ''thread_2'' STATUS_ACCEPTED ''author_2'' ''translation.English'' 0])"
    by (simp add: query_suggestions_def prop_eq_def ALLOWED_QUERY_FIELDS_def do_validate_choice
        do_validate_no_choices STATUS_CHOICES_def getattr_simps fetch_def filter_query_def
        query_def example_suggestion_def STATUS_ACCEPTED_def STATUS_IN_REVIEW_def)
  from query_order_independent [OF p a, of 1000
     "[example_suggestion ''thread_1'' STATUS_IN_REVIEW ''author_1'' ''translation.English'' 0,
      example_suggestion ''thread_2'' STATUS_ACCEPTED ''author_2'' ''translation.English'' 0]"] q
  have "query_suggestions 1000 [(''status'', STATUS_ACCEPTED), (''author_id'', ''author_2'')]
     [example_suggestion ''thread_1'' STATUS_IN_REVIEW ''author_1'' ''translation.English'' 0,
      example_suggestion ''thread_2'' STATUS_ACCEPTED ''author_2'' ''translation.English'' 0]
   = (Inr [example_suggestion ''thread_2'' STATUS_ACCEPTED ''author_2'' ''translation.English'' 0],
     [example_suggestion ''thread_1'' STATUS_IN_REVIEW ''author_1'' ''translation.English'' 0,
      example_suggestion ''thread_2'' STATUS_ACCEPTED ''author_2'' ''translation.English'' 0])"
    by blast
  with p q show ?thesis
    by (simp add: ALLOWED_QUERY_FIELDS_def)
qed

subsection \<open>Export\<close>

lemma fetch_bounded: "length (fetch (Some n) q s) \<le> n"
  by (simp add: fetch_def)

lemma export_loop_dom:
  "dom (export_loop user_data rs) = dom user_data \<union> model_id ` set rs"
  by (induction rs arbitrary: user_data) auto

lemma export_loop_other:
  "k \<notin> model_id ` set rs \<Longrightarrow> export_loop user_data rs k = user_data k"
  by (induction rs arbitrary: user_data) auto

lemma export_loop_entry:
  "distinct (map model_id rs) \<Longrightarrow> r \<in> set rs \<Longrightarrow>
   export_loop user_data rs (model_id r) = Some (export_entry r)"
proof (induction rs arbitrary: user_data)
  case Nil
  then show ?case by simp
next
  case (Cons a rs)
  show ?case
  proof (cases "r \<in> set rs")
    case True
    with Cons show ?thesis by simp
  next
    case False
    with Cons.prems have "r = a" "model_id a \<notin> model_id ` set rs" by auto
    then show ?thesis by (simp add: export_loop_other)
  qed
qed

lemma export_loop_ran:
  "ran (export_loop user_data rs) \<subseteq> ran user_data \<union> export_entry ` set rs"
proof (induction rs arbitrary: user_data)
  case Nil
  then show ?case by simp
next
  case (Cons a rs)
  have a: "ran (export_loop (user_data(model_id a \<mapsto> export_entry a)) rs) \<subseteq>
      ran (user_data(model_id a \<mapsto> export_entry a)) \<union> export_entry ` set rs"
    by (rule Cons.IH)
  have b: "ran (user_data(model_id a \<mapsto> export_entry a)) \<subseteq> insert (export_entry a) (ran user_data)"
    by (auto simp add: ran_def)
  have c: "export_loop user_data (a # rs) =
      export_loop (user_data(model_id a \<mapsto> export_entry a)) rs"
    by simp
  have d: "set (a # rs) = insert a (set rs)"
    by simp
  show ?case
    unfolding c d using a b by blast
qed

lemma export_entry_dom:
  "dom (export_entry r) =
     {''suggestion_type'', ''target_type'', ''target_id'', ''target_version_at_submission'',
      ''status'', ''change_cmd''}"
  by (auto simp add: export_entry_def)

lemma export_data_eq:
  "export_data user_id s =
     (Inr (export_loop Map.empty (List.filter (\<lambda>r. author_id r = user_id) s)), s)"
  by (simp add: export_data_def prop_eq_author_id fetch_get_all)

lemma put_entity_ids:
  "map model_id (put_entity e s) =
     (if model_id e \<in> set (map model_id s) then map model_id s else map model_id s @ [model_id e])"
  by (induction s) auto

lemma put_preserves_distinct_ids:
  "distinct (map model_id s) \<Longrightarrow> distinct (map model_id (put e now s))"
  by (simp add: put_def put_entity_ids)

lemma create_preserves_distinct_ids:
  "distinct (map model_id s) \<Longrightarrow>
   distinct (map model_id (snd (create st tt ti tv stat au fr cc sc thread_id now s)))"
  by (simp add: create_def put_preserves_distinct_ids split: sum.splits)

text \<open>
  C7. For every user and every datastore, \<open>export_data\<close> succeeds (it has no error, also
  when the user authored nothing: then the mapping is empty), leaves the datastore as it
  was and returns a mapping whose keys are exactly the ids of the suggestions whose
  author is the user. Every value of the mapping has exactly the keys
  \<open>suggestion_type\<close>, \<open>target_type\<close>, \<open>target_id\<close>,
  \<open>target_version_at_submission\<close>, \<open>status\<close> and \<open>change_cmd\<close>, and so none of
  \<open>author_id\<close>, \<open>final_reviewer_id\<close> and \<open>score_category\<close>. In a datastore whose ids
  are distinct (every datastore that \<open>create\<close> builds), the mapping has one entry per
  authored suggestion, and the entry under a suggestion's id holds the six fields of that
  suggestion.
\<close>

theorem export_data_authored:
  "\<exists>user_data. export_data user_id s = (Inr user_data, s) \<and>
     dom user_data = model_id ` {r \<in> set s. author_id r = user_id} \<and>
     (\<forall>entry \<in> ran user_data.
        dom entry = {''suggestion_type'', ''target_type'', ''target_id'',
                     ''target_version_at_submission'', ''status'', ''change_cmd''} \<and>
        ''author_id'' \<notin> dom entry \<and> ''final_reviewer_id'' \<notin> dom entry \<and>
        ''score_category'' \<notin> dom entry) \<and>
     ((\<forall>r \<in> set s. author_id r \<noteq> user_id) \<longrightarrow> user_data = Map.empty) \<and>
     (distinct (map model_id s) \<longrightarrow>
        card (dom user_data) = length (List.filter (\<lambda>r. author_id r = user_id) s) \<and>
        (\<forall>r \<in> set s. author_id r = user_id \<longrightarrow>
           (\<exists>entry. user_data (model_id r) = Some entry \<and>
              entry ''suggestion_type'' = Some (JString (suggestion_type r)) \<and>
              entry ''target_type'' = Some (JString (target_type r)) \<and>
              entry ''target_id'' = Some (JString (target_id r)) \<and>
              entry ''target_version_at_submission'' =
                Some (JInt (target_version_at_submission r)) \<and>
              entry ''status'' = Some (JString (status r)) \<and>
              entry ''change_cmd'' = Some (change_cmd r))))"
proof -
  let ?rs = "List.filter (\<lambda>r. author_id r = user_id) s"
  let ?ud = "export_loop Map.empty ?rs"
  have 1: "export_data user_id s = (Inr ?ud, s)"
    by (rule export_data_eq)
  have 2: "dom ?ud = model_id ` {r \<in> set s. author_id r = user_id}"
    by (simp add: export_loop_dom)
  have 3: "\<forall>entry \<in> ran ?ud.
        dom entry = {''suggestion_type'', ''target_type'', ''target_id'',
                     ''target_version_at_submission'', ''status'', ''change_cmd''} \<and>
        ''author_id'' \<notin> dom entry \<and> ''final_reviewer_id'' \<notin> dom entry \<and>
        ''score_category'' \<notin> dom entry"
  proof
    fix entry assume "entry \<in> ran ?ud"
    with export_loop_ran [of Map.empty ?rs] obtain r where "entry = export_entry r"
      by auto
    then show "dom entry = {''suggestion_type'', ''target_type'', ''target_id'',
                     ''target_version_at_submission'', ''status'', ''change_cmd''} \<and>
        ''author_id'' \<notin> dom entry \<and> ''final_reviewer_id'' \<notin> dom entry \<and>
        ''score_category'' \<notin> dom entry"
      by (simp add: export_entry_dom)
  qed
  have 4: "(\<forall>r \<in> set s. author_id r \<noteq> user_id) \<longrightarrow> ?ud = Map.empty"
  proof
    assume "\<forall>r \<in> set s. author_id r \<noteq> user_id"
    then have "?rs = []" by (simp add: filter_empty_conv)
    then show "?ud = Map.empty" by simp
  qed
  have 5: "distinct (map model_id s) \<longrightarrow>
        card (dom ?ud) = length ?rs \<and>
        (\<forall>r \<in> set s. author_id r = user_id \<longrightarrow>
           (\<exists>entry. ?ud (model_id r) = Some entry \<and>
              entry ''suggestion_type'' = Some (JString (suggestion_type r)) \<and>
              entry ''target_type'' = Some (JString (target_type r)) \<and>
              entry ''target_id'' = Some (JString (target_id r)) \<and>
              entry ''target_version_at_submission'' =
                Some (JInt (target_version_at_submission r)) \<and>
              entry ''status'' = Some (JString (status r)) \<and>
              entry ''change_cmd'' = Some (change_cmd r)))"
  proof (intro impI conjI ballI)
    assume "distinct (map model_id s)"
    then have d: "distinct (map model_id ?rs)"
      by (rule distinct_map_filter)
    have "dom ?ud = set (map model_id ?rs)"
      by (simp add: export_loop_dom)
    then show "card (dom ?ud) = length ?rs"
      using distinct_card [OF d] by simp
    fix r assume "r \<in> set s" "author_id r = user_id"
    then have "r \<in> set ?rs" by simp
    from export_loop_entry [OF d this]
    have "?ud (model_id r) = Some (export_entry r)" .
    then show "\<exists>entry. ?ud (model_id r) = Some entry \<and>
              entry ''suggestion_type'' = Some (JString (suggestion_type r)) \<and>
              entry ''target_type'' = Some (JString (target_type r)) \<and>
              entry ''target_id'' = Some (JString (target_id r)) \<and>
              entry ''target_version_at_submission'' =
                Some (JInt (target_version_at_submission r)) \<and>
              entry ''status'' = Some (JString (status r)) \<and>
              entry ''change_cmd'' = Some (change_cmd r)"
      by (simp add: export_entry_def)
  qed
  from 1 2 3 4 5 show ?thesis by blast
qed

theorem export_data_authored_witness:
  "distinct (map model_id
     [example_suggestion ''thread_1'' STATUS_IN_REVIEW ''author_1'' ''translation.English'' 0,
      example_suggestion ''thread_export'' STATUS_IN_REVIEW ''test_export_author'' ''category1'' 0]) \<and>
   snd (export_data ''test_export_author''
     [example_suggestion ''thread_1'' STATUS_IN_REVIEW ''author_1'' ''translation.English'' 0,
      example_suggestion ''thread_export'' STATUS_IN_REVIEW ''test_export_author'' ''category1'' 0])
   = [example_suggestion ''thread_1'' STATUS_IN_REVIEW ''author_1'' ''translation.English'' 0,
      example_suggestion ''thread_export'' STATUS_IN_REVIEW ''test_export_author'' ''category1'' 0] \<and>
   dom (projr (fst (export_data ''test_export_author''
     [example_suggestion ''thread_1'' STATUS_IN_REVIEW ''author_1'' ''translation.English'' 0,
      example_suggestion ''thread_export'' STATUS_IN_REVIEW ''test_export_author'' ''category1'' 0])))
   = {''thread_export''} \<and>
   card (dom (projr (fst (export_data ''test_export_author''
     [example_suggestion ''thread_1'' STATUS_IN_REVIEW ''author_1'' ''translation.English'' 0,
      example_suggestion ''thread_export'' STATUS_IN_REVIEW ''test_export_author'' ''category1'' 0]))))
   = 1 \<and>
   (\<exists>entry. projr (fst (export_data ''test_export_author''
     [example_suggestion ''thread_1'' STATUS_IN_REVIEW ''author_1'' ''translation.English'' 0,
      example_suggestion ''thread_export'' STATUS_IN_REVIEW ''test_export_author'' ''category1'' 0]))
       ''thread_export'' = Some entry \<and>
     entry ''status'' = Some (JString STATUS_IN_REVIEW) \<and>
     entry ''target_version_at_submission'' = Some (JInt 1) \<and>
     entry ''change_cmd'' = Some (JDict [])) \<and>
   export_data ''non_existent_user''
     [example_suggestion ''thread_1'' STATUS_IN_REVIEW ''author_1'' ''translation.English'' 0,
      example_suggestion ''thread_export'' STATUS_IN_REVIEW ''test_export_author'' ''category1'' 0]
   = (Inr Map.empty,
     [example_suggestion ''thread_1'' STATUS_IN_REVIEW ''author_1'' ''translation.English'' 0,
      example_suggestion ''thread_export'' STATUS_IN_REVIEW ''test_export_author'' ''category1'' 0])"
proof -
  let ?e = "example_suggestion ''thread_export'' STATUS_IN_REVIEW ''test_export_author'' ''category1'' 0"
  let ?s = "[example_suggestion ''thread_1'' STATUS_IN_REVIEW ''author_1'' ''translation.English'' 0,
      example_suggestion ''thread_export'' STATUS_IN_REVIEW ''test_export_author'' ''category1'' 0]"
  have d: "distinct (map model_id ?s)"
    by (simp add: example_suggestion_def)
  have mem: "?e \<in> set ?s" "author_id ?e = ''test_export_author''" "model_id ?e = ''thread_export''"
    "status ?e = STATUS_IN_REVIEW" "target_version_at_submission ?e = 1" "change_cmd ?e = JDict []"
    by (simp_all add: example_suggestion_def)
  from export_data_authored [of "''test_export_author''" ?s] d
  obtain user_data where e: "export_data ''test_export_author'' ?s = (Inr user_data, ?s)"
    and dm: "dom user_data = model_id ` {r \<in> set ?s. author_id r = ''test_export_author''}"
    and c: "card (dom user_data) =
      length (List.filter (\<lambda>r. author_id r = ''test_export_author'') ?s)"
    and en: "\<forall>r \<in> set ?s. author_id r = ''test_export_author'' \<longrightarrow>
           (\<exists>entry. user_data (model_id r) = Some entry \<and>
              entry ''suggestion_type'' = Some (JString (suggestion_type r)) \<and>
              entry ''target_type'' = Some (JString (target_type r)) \<and>
              entry ''target_id'' = Some (JString (target_id r)) \<and>
              entry ''target_version_at_submission'' =
                Some (JInt (target_version_at_submission r)) \<and>
              entry ''status'' = Some (JString (status r)) \<and>
              entry ''change_cmd'' = Some (change_cmd r))"
    by blast
  from en mem(1,2) have "\<exists>entry. user_data (model_id ?e) = Some entry \<and>
              entry ''suggestion_type'' = Some (JString (suggestion_type ?e)) \<and>
              entry ''target_type'' = Some (JString (target_type ?e)) \<and>
              entry ''target_id'' = Some (JString (target_id ?e)) \<and>
              entry ''target_version_at_submission'' =
                Some (JInt (target_version_at_submission ?e)) \<and>
              entry ''status'' = Some (JString (status ?e)) \<and>
              entry ''change_cmd'' = Some (change_cmd ?e)"
    by blast
  then have en': "\<exists>entry. user_data ''thread_export'' = Some entry \<and>
     entry ''status'' = Some (JString STATUS_IN_REVIEW) \<and>
     entry ''target_version_at_submission'' = Some (JInt 1) \<and>
     entry ''change_cmd'' = Some (JDict [])"
    unfolding mem(3-6) by blast
  have m: "map model_id (List.filter (\<lambda>r. author_id r = ''test_export_author'') ?s) =
      [''thread_export'']"
    by (simp add: example_suggestion_def)
  have "model_id ` {r \<in> set ?s. author_id r = ''test_export_author''} =
      set (map model_id (List.filter (\<lambda>r. author_id r = ''test_export_author'') ?s))"
    by (simp only: set_map set_filter)
  also have "\<dots> = {''thread_export''}"
    unfolding m by simp
  finally have dm': "dom user_data = {''thread_export''}"
    using dm by simp
  from c have c': "card (dom user_data) = 1"
    by (simp add: example_suggestion_def)
  have none: "\<forall>r \<in> set ?s. author_id r \<noteq> ''non_existent_user''"
    by (simp add: example_suggestion_def)
  from export_data_authored [of "''non_existent_user''" ?s] none
  have z: "export_data ''non_existent_user'' ?s = (Inr Map.empty, ?s)"
    by blast
  have p: "projr (fst (export_data ''test_export_author'' ?s)) = user_data"
    "snd (export_data ''test_export_author'' ?s) = ?s"
    by (simp_all add: e)
  from d dm' c' en' z show ?thesis
    unfolding p by blast
qed

subsection \<open>Score categories of stored suggestions\<close>














subsection \<open>The query limit\<close>

lemma get_all_stale_suggestions_eq:
  "get_all_stale_suggestions threshold_msecs utcnow s =
     (Inr (List.filter
             (\<lambda>r. status r = STATUS_IN_REVIEW \<and>
                  last_updated r < utcnow - threshold_msecs * 1000) s), s)"
  by (simp add: get_all_stale_suggestions_def prop_eq_status_in_review fetch_get_all
      timedelta_def)

text \<open>For any number there is a datastore with distinct ids whose stale suggestions are
  that many.\<close>

lemma get_all_stale_suggestions_unbounded:
  "length (projr (fst (get_all_stale_suggestions 0 1
      (map (\<lambda>i. example_suggestion (replicate i CHR ''a'') STATUS_IN_REVIEW ''author_1''
                 ''translation.English'' 0) [0..<n])))) = n"
  by (simp add: get_all_stale_suggestions_eq example_suggestion_def filter_map o_def)

text \<open>
  C6 (amended). For every datastore, the generic query and the three queries that fetch
  with the limit (in review by score categories, in review by suggestion type, created by
  the user by suggestion type) return at most \<open>DEFAULT_QUERY_LIMIT\<close> suggestions when
  they return. \<open>get_all_stale_suggestions\<close> and \<open>export_data\<close> fetch without a limit:
  the first returns every stale suggestion of the datastore, the second has an entry for
  every id of a suggestion the user authored.
\<close>

theorem bounded_queries:
  "(\<forall>rs. fst (query_suggestions DEFAULT_QUERY_LIMIT qfv s) = Inr rs \<longrightarrow>
          length rs \<le> DEFAULT_QUERY_LIMIT) \<and>
   (\<forall>rs. fst (get_in_review_suggestions_in_score_categories DEFAULT_QUERY_LIMIT
              score_categories user_id s) = Inr rs \<longrightarrow>
          length rs \<le> DEFAULT_QUERY_LIMIT) \<and>
   (\<forall>rs. fst (get_in_review_suggestions_of_suggestion_type DEFAULT_QUERY_LIMIT
              suggestion_type' user_id s) = Inr rs \<longrightarrow>
          length rs \<le> DEFAULT_QUERY_LIMIT) \<and>
   (\<forall>rs. fst (get_user_created_suggestions_of_suggestion_type DEFAULT_QUERY_LIMIT
              suggestion_type' user_id s) = Inr rs \<longrightarrow>
          length rs \<le> DEFAULT_QUERY_LIMIT) \<and>
   fst (get_all_stale_suggestions threshold_msecs utcnow s) =
     Inr (List.filter
            (\<lambda>r. status r = STATUS_IN_REVIEW \<and>
                 last_updated r < utcnow - threshold_msecs * 1000) s) \<and>
   (\<exists>user_data. fst (export_data user_id s) = Inr user_data \<and>
      dom user_data = model_id ` {r \<in> set s. author_id r = user_id})"
proof (intro conjI allI impI)
  fix rs assume "fst (query_suggestions DEFAULT_QUERY_LIMIT qfv s) = Inr rs"
  then show "length rs \<le> DEFAULT_QUERY_LIMIT"
    by (auto simp add: query_suggestions_def fetch_bounded split: sum.splits)
next
  fix rs assume "fst (get_in_review_suggestions_in_score_categories DEFAULT_QUERY_LIMIT
              score_categories user_id s) = Inr rs"
  then show "length rs \<le> DEFAULT_QUERY_LIMIT"
    by (auto simp add: get_in_review_suggestions_in_score_categories_def fetch_bounded
        split: sum.splits if_splits)
next
  fix rs assume "fst (get_in_review_suggestions_of_suggestion_type DEFAULT_QUERY_LIMIT
              suggestion_type' user_id s) = Inr rs"
  then show "length rs \<le> DEFAULT_QUERY_LIMIT"
    by (auto simp add: get_in_review_suggestions_of_suggestion_type_def fetch_bounded
        split: sum.splits)
next
  fix rs assume "fst (get_user_created_suggestions_of_suggestion_type DEFAULT_QUERY_LIMIT
              suggestion_type' user_id s) = Inr rs"
  then show "length rs \<le> DEFAULT_QUERY_LIMIT"
    by (auto simp add: get_user_created_suggestions_of_suggestion_type_def fetch_bounded
        split: sum.splits)
next
  show "fst (get_all_stale_suggestions threshold_msecs utcnow s) =
     Inr (List.filter
            (\<lambda>r. status r = STATUS_IN_REVIEW \<and>
                 last_updated r < utcnow - threshold_msecs * 1000) s)"
    by (simp add: get_all_stale_suggestions_eq)
next
  show "\<exists>user_data. fst (export_data user_id s) = Inr user_data \<and>
      dom user_data = model_id ` {r \<in> set s. author_id r = user_id}"
    by (simp add: export_data_eq export_loop_dom)
qed

theorem bounded_queries_witness:
  "fst (query_suggestions 1 []
     [example_suggestion ''thread_1'' STATUS_IN_REVIEW ''author_1'' ''translation.English'' 0,
      example_suggestion ''thread_2'' STATUS_IN_REVIEW ''author_1'' ''translation.English'' 0])
   = Inr [example_suggestion ''thread_1'' STATUS_IN_REVIEW ''author_1'' ''translation.English'' 0] \<and>
   fst (get_in_review_suggestions_in_score_categories 1 [''translation.English''] ''author_2''
     [example_suggestion ''thread_1'' STATUS_IN_REVIEW ''author_1'' ''translation.English'' 0,
      example_suggestion ''thread_2'' STATUS_IN_REVIEW ''author_1'' ''translation.English'' 0])
   = Inr [example_suggestion ''thread_1'' STATUS_IN_REVIEW ''author_1'' ''translation.English'' 0] \<and>
   fst (get_in_review_suggestions_of_suggestion_type 1 SUGGESTION_TYPE_EDIT_STATE_CONTENT ''author_2''
     [example_suggestion ''thread_1'' STATUS_IN_REVIEW ''author_1'' ''translation.English'' 0,
      example_suggestion ''thread_2'' STATUS_IN_REVIEW ''author_1'' ''translation.English'' 0])
   = Inr [example_suggestion ''thread_1'' STATUS_IN_REVIEW ''author_1'' ''translation.English'' 0] \<and>
   fst (get_user_created_suggestions_of_suggestion_type 1 SUGGESTION_TYPE_EDIT_STATE_CONTENT ''author_1''
     [example_suggestion ''thread_1'' STATUS_IN_REVIEW ''author_1'' ''translation.English'' 0,
      example_suggestion ''thread_2'' STATUS_IN_REVIEW ''author_1'' ''translation.English'' 0])
   = Inr [example_suggestion ''thread_1'' STATUS_IN_REVIEW ''author_1'' ''translation.English'' 0] \<and>
   length [example_suggestion ''thread_1'' STATUS_IN_REVIEW ''author_1'' ''translation.English'' 0]
     \<le> (1::nat)"
proof -
  let ?s = "[example_suggestion ''thread_1'' STATUS_IN_REVIEW ''author_1'' ''translation.English'' 0,
      example_suggestion ''thread_2'' STATUS_IN_REVIEW ''author_1'' ''translation.English'' 0]"
  let ?r = "[example_suggestion ''thread_1'' STATUS_IN_REVIEW ''author_1'' ''translation.English'' 0]"
  have t: "prop_eq ''suggestion_type'' SUGGESTION_TYPE_EDIT_STATE_CONTENT =
      Inr (\<lambda>r. suggestion_type r = SUGGESTION_TYPE_EDIT_STATE_CONTENT)"
    by (simp add: prop_eq_def do_validate_choice SUGGESTION_TYPE_CHOICES_def getattr_simps)
  have 1: "fst (query_suggestions 1 [] ?s) = Inr ?r"
    by (simp add: query_suggestions_def fetch_def query_def)
  have 2: "fst (get_in_review_suggestions_in_score_categories 1 [''translation.English'']
      ''author_2'' ?s) = Inr ?r"
    by (simp add: get_in_review_suggestions_in_score_categories_def prop_eq_status_in_review
        prop_IN_score_category prop_ne_author_id fetch_get_all example_suggestion_def)
  have 3: "fst (get_in_review_suggestions_of_suggestion_type 1 SUGGESTION_TYPE_EDIT_STATE_CONTENT
      ''author_2'' ?s) = Inr ?r"
    by (simp add: get_in_review_suggestions_of_suggestion_type_def prop_eq_status_in_review t
        prop_ne_author_id fetch_get_all example_suggestion_def)
  have 4: "fst (get_user_created_suggestions_of_suggestion_type 1 SUGGESTION_TYPE_EDIT_STATE_CONTENT
      ''author_1'' ?s) = Inr ?r"
    by (simp add: get_user_created_suggestions_of_suggestion_type_def prop_eq_status_in_review t
        prop_eq_author_id fetch_get_all example_suggestion_def)
  from bounded_queries [of 1 "[]" ?s "[''translation.English'']" "''author_2''"
      SUGGESTION_TYPE_EDIT_STATE_CONTENT] 1 2 3
  have "length ?r \<le> (1::nat)"
    by blast
  with 1 2 3 4 show ?thesis by blast
qed

text \<open>
  C6 as stated fails: with the limit 1 and two stale suggestions of one author in the
  datastore, the generic query returns one suggestion, \<open>get_all_stale_suggestions\<close>
  returns both and \<open>export_data\<close> has two entries.
\<close>

theorem unbounded_fetch_counterexample:
  "query_suggestions 1 []
     [example_suggestion ''thread_1'' STATUS_IN_REVIEW ''author_1'' ''translation.English'' 0,
      example_suggestion ''thread_2'' STATUS_IN_REVIEW ''author_1'' ''translation.English'' 0]
   = (Inr [example_suggestion ''thread_1'' STATUS_IN_REVIEW ''author_1'' ''translation.English'' 0],
     [example_suggestion ''thread_1'' STATUS_IN_REVIEW ''author_1'' ''translation.English'' 0,
      example_suggestion ''thread_2'' STATUS_IN_REVIEW ''author_1'' ''translation.English'' 0]) \<and>
   get_all_stale_suggestions 0 1
     [example_suggestion ''thread_1'' STATUS_IN_REVIEW ''author_1'' ''translation.English'' 0,
      example_suggestion ''thread_2'' STATUS_IN_REVIEW ''author_1'' ''translation.English'' 0]
   = (Inr [example_suggestion ''thread_1'' STATUS_IN_REVIEW ''author_1'' ''translation.English'' 0,
           example_suggestion ''thread_2'' STATUS_IN_REVIEW ''author_1'' ''translation.English'' 0],
     [example_suggestion ''thread_1'' STATUS_IN_REVIEW ''author_1'' ''translation.English'' 0,
      example_suggestion ''thread_2'' STATUS_IN_REVIEW ''author_1'' ''translation.English'' 0]) \<and>
   card (dom (projr (fst (export_data ''author_1''
     [example_suggestion ''thread_1'' STATUS_IN_REVIEW ''author_1'' ''translation.English'' 0,
      example_suggestion ''thread_2'' STATUS_IN_REVIEW ''author_1'' ''translation.English'' 0]))))
   = 2 \<and>
   \<not> (2::nat) \<le> 1"
  by (simp add: query_suggestions_def fetch_def query_def get_all_stale_suggestions_eq
      export_data_eq example_suggestion_def)

end
